theory Spec2Isabelle
  imports Complex_Main "HOL-Library.Sublist"
begin

section \<open>Python strings\<close>

text \<open>
  A Python \<open>str\<close> is a sequence of Unicode code points, so a string is a list of
  code points (natural numbers). Cyrillic letters and typographic quotes, which the
  validator's character classes mention, are single elements of such a list.
\<close>

type_synonym pystr = "nat list"

definition ustr :: "string \<Rightarrow> pystr" where
  "ustr cs = map of_char cs"

text \<open>
  \<open>Py_UNICODE_ISSPACE\<close>: the whitespace test of CPython that both \<open>str.strip()\<close>
  and the class \<open>\s\<close> of a \<open>str\<close> pattern use. It holds of TAB, LF, VT, FF, CR
  (9 to 13), of the separators 28 to 31, of the space, and of the Unicode spaces listed.
\<close>

definition unicode_space :: "nat \<Rightarrow> bool" where
  "unicode_space c \<longleftrightarrow>
     (9 \<le> c \<and> c \<le> 13) \<or> (28 \<le> c \<and> c \<le> 32) \<or> c = 133 \<or> c = 160 \<or> c = 5760 \<or>
     (8192 \<le> c \<and> c \<le> 8202) \<or> c = 8232 \<or> c = 8233 \<or> c = 8239 \<or> c = 8287 \<or>
     c = 12288"

text \<open>\<open>str.strip()\<close> without argument: whitespace is removed at both ends.\<close>

definition strip :: "pystr \<Rightarrow> pystr" where
  "strip text = rev (dropWhile unicode_space (rev (dropWhile unicode_space text)))"

section \<open>TextValidator (src/test.py)\<close>

text \<open>
  Each entry of \<open>ALLOWED_PATTERNS\<close> is a regular expression made of one character
  class; \<open>re.match(pattern, char)\<close> on a one-character string succeeds exactly when
  the character belongs to the class. A class is therefore a predicate on code points.
\<close>

definition cyrillic :: "nat \<Rightarrow> bool" where
  \<comment> \<open>\<open>[a-ya A-YA yo YO]\<close> in Cyrillic: U+0430..U+044F, U+0410..U+042F, U+0451, U+0401\<close>
  "cyrillic c \<longleftrightarrow> (1072 \<le> c \<and> c \<le> 1103) \<or> (1040 \<le> c \<and> c \<le> 1071) \<or> c = 1105 \<or> c = 1025"

definition latin :: "nat \<Rightarrow> bool" where
  \<comment> \<open>\<open>[a-zA-Z]\<close>\<close>
  "latin c \<longleftrightarrow> (97 \<le> c \<and> c \<le> 122) \<or> (65 \<le> c \<and> c \<le> 90)"

definition digit :: "nat \<Rightarrow> bool" where
  \<comment> \<open>\<open>[0-9]\<close>\<close>
  "digit c \<longleftrightarrow> 48 \<le> c \<and> c \<le> 57"

definition punctuation :: "nat \<Rightarrow> bool" where
  \<comment> \<open>full stop, comma, !, ?, ;, :, hyphen, em dash, en dash, double quote, apostrophe,
      the two guillemets, low double quote (the class repeats the last two)\<close>
  "punctuation c \<longleftrightarrow>
     c \<in> set [46, 44, 33, 63, 59, 58, 45, 8212, 8211, 34, 39, 171, 187, 8222, 34, 8222]"

definition ALLOWED_PATTERNS :: "(nat \<Rightarrow> bool) list" where
  "ALLOWED_PATTERNS = [cyrillic, latin, digit, unicode_space, punctuation]"

definition FORBIDDEN_CHARS :: "nat set" where
  "FORBIDDEN_CHARS = {0, 1, 2, 3, 4, 5, 6, 7, 8, 11, 12, 14}"

text \<open>The loop of \<open>_is_valid_char\<close>: the first pattern that matches answers True.\<close>

fun match_patterns :: "(nat \<Rightarrow> bool) list \<Rightarrow> nat \<Rightarrow> bool" where
  "match_patterns [] char = False"
| "match_patterns (pattern # rest) char =
     (if pattern char then True else match_patterns rest char)"

definition is_valid_char :: "nat \<Rightarrow> bool" where
  "is_valid_char char = match_patterns ALLOWED_PATTERNS char"

text \<open>The second loop of \<open>is_valid_text\<close>: the first invalid character answers False.\<close>

fun chars_valid :: "pystr \<Rightarrow> bool" where
  "chars_valid [] = True"
| "chars_valid (char # rest) = (if \<not> is_valid_char char then False else chars_valid rest)"

definition is_valid_text :: "pystr \<Rightarrow> bool" where
  "is_valid_text text =
     (if text = [] then False
      else if list_ex (\<lambda>char. char \<in> FORBIDDEN_CHARS) text then False
      else chars_valid text)"

text \<open>\<open>''.join(char for char in text if cls._is_valid_char(char))\<close>\<close>

definition filter_text :: "pystr \<Rightarrow> pystr" where
  "filter_text text = concat (map (\<lambda>char. [char]) (filter is_valid_char text))"

section \<open>The service state (src/app/main.py)\<close>

text \<open>
  The pretrained model, its tokenizer and the Python exceptions are values of external
  libraries. A handle is identified by a number; an exception \<open>e\<close> by \<open>str(e)\<close>,
  the only thing the service reads from it. Every failure of a library call is an
  instance of \<open>Exception\<close>, the class that the \<open>except\<close> clauses catch.
\<close>

datatype py_exception = PyException (message: pystr)

datatype tokenizer_handle = T5Tokenizer nat

datatype model_handle = T5ForConditionalGeneration nat

type_synonym encoding = "nat list"

type_synonym sequence = "nat list"

text \<open>
  The calls that leave the process are recorded in the order they happen: an attempt to
  load (the body of the \<open>try\<close> in \<open>load_model\<close>, numbered by the loop variable),
  \<open>time.sleep\<close> with its delay, the tokenizer call with the text it is given,
  \<open>model.generate\<close> with its three request parameters, and \<open>tokenizer.decode\<close>.
\<close>

datatype event =
    FetchAttempt nat
  | Sleep nat
  | TokenizerCall tokenizer_handle pystr
  | GenerateCall model_handle encoding int int real
  | DecodeCall tokenizer_handle sequence

text \<open>The module's globals \<open>model\<close>, \<open>tokenizer\<close> and \<open>device\<close>, and the record of calls.\<close>

record state =
  model :: "model_handle option"
  tokenizer :: "tokenizer_handle option"
  device :: pystr
  events :: "event list"

definition emit :: "event \<Rightarrow> state \<Rightarrow> state" where
  "emit ev s = s\<lparr>events := events s @ [ev]\<rparr>"

text \<open>
  The state when the module has been imported: both handles are \<open>None\<close> and
  \<open>device\<close> is chosen once from \<open>torch.cuda.is_available()\<close>.
\<close>

definition module_init :: "bool \<Rightarrow> state" where
  "module_init cuda_is_available =
     \<lparr>model = None, tokenizer = None,
      device = (if cuda_is_available then ustr ''cuda'' else ustr ''cpu''),
      events = []\<rparr>"

section \<open>load_model\<close>

text \<open>
  What one run of the \<open>try\<close> body meets. The body assigns the global \<open>tokenizer\<close>,
  then the global \<open>model\<close>, then calls \<open>model.to(device)\<close> and \<open>model.eval()\<close>;
  any of the four calls may raise.
\<close>

datatype load_outcome =
    TokenizerRaises py_exception
  | ModelRaises tokenizer_handle py_exception
  | ToDeviceRaises tokenizer_handle model_handle py_exception
  | EvalRaises tokenizer_handle model_handle py_exception
  | Loaded tokenizer_handle model_handle

fun try_load :: "load_outcome \<Rightarrow> state \<Rightarrow> (py_exception + unit) \<times> state" where
  "try_load (TokenizerRaises e) s = (Inl e, s)"
| "try_load (ModelRaises t e) s = (Inl e, s\<lparr>tokenizer := Some t\<rparr>)"
| "try_load (ToDeviceRaises t m e) s = (Inl e, s\<lparr>tokenizer := Some t, model := Some m\<rparr>)"
| "try_load (EvalRaises t m e) s = (Inl e, s\<lparr>tokenizer := Some t, model := Some m\<rparr>)"
| "try_load (Loaded t m) s = (Inr (), s\<lparr>tokenizer := Some t, model := Some m\<rparr>)"

text \<open>
  The loop \<open>for attempt in range(max_retries)\<close>, over the list of the remaining values
  of \<open>attempt\<close>. \<open>from_pretrained\<close> gives what the attempt with that number meets. A
  loop that ran out of values would fall through and return \<open>None\<close>.
\<close>

fun load_attempts ::
  "(nat \<Rightarrow> load_outcome) \<Rightarrow> nat \<Rightarrow> nat list \<Rightarrow> nat \<Rightarrow> state \<Rightarrow> (py_exception + unit) \<times> state"
where
  "load_attempts from_pretrained max_retries [] retry_delay s = (Inr (), s)"
| "load_attempts from_pretrained max_retries (attempt # rest) retry_delay s =
     (case try_load (from_pretrained attempt) (emit (FetchAttempt attempt) s) of
        (Inr u, s') \<Rightarrow> (Inr u, s')
      | (Inl e, s') \<Rightarrow>
          if attempt < max_retries - 1
          then load_attempts from_pretrained max_retries rest (retry_delay * 2)
                 (emit (Sleep retry_delay) s')
          else (Inl e, s'))"

definition load_model :: "(nat \<Rightarrow> load_outcome) \<Rightarrow> state \<Rightarrow> (py_exception + unit) \<times> state" where
  "load_model from_pretrained s =
     (if model s = None \<or> tokenizer s = None
      then load_attempts from_pretrained 3 [0..<3] 5 s
      else (Inr (), s))"

text \<open>What an outcome raises, and which handles it assigns.\<close>

fun raised :: "load_outcome \<Rightarrow> py_exception option" where
  "raised (TokenizerRaises e) = Some e"
| "raised (ModelRaises t e) = Some e"
| "raised (ToDeviceRaises t m e) = Some e"
| "raised (EvalRaises t m e) = Some e"
| "raised (Loaded t m) = None"

fun fetched_tokenizer :: "load_outcome \<Rightarrow> tokenizer_handle option" where
  "fetched_tokenizer (TokenizerRaises e) = None"
| "fetched_tokenizer (ModelRaises t e) = Some t"
| "fetched_tokenizer (ToDeviceRaises t m e) = Some t"
| "fetched_tokenizer (EvalRaises t m e) = Some t"
| "fetched_tokenizer (Loaded t m) = Some t"

fun fetched_model :: "load_outcome \<Rightarrow> model_handle option" where
  "fetched_model (TokenizerRaises e) = None"
| "fetched_model (ModelRaises t e) = None"
| "fetched_model (ToDeviceRaises t m e) = Some m"
| "fetched_model (EvalRaises t m e) = Some m"
| "fetched_model (Loaded t m) = Some m"

section \<open>Requests, responses and the paraphrase endpoint\<close>

text \<open>
  \<open>ParaphraseRequest\<close> declares \<open>text: str\<close>, \<open>num_return_sequences: int = 1\<close>,
  \<open>num_beams: int = 5\<close> and \<open>temperature: float = 1.0\<close>, with no validator and no
  \<open>Field\<close> constraint. Constructing one from values of the declared types stores them
  as they are; a field that is left out takes its default.
\<close>

record ParaphraseRequest =
  "text" :: pystr
  num_return_sequences :: int
  num_beams :: int
  temperature :: real

definition new_ParaphraseRequest ::
  "pystr \<Rightarrow> int option \<Rightarrow> int option \<Rightarrow> real option \<Rightarrow> ParaphraseRequest" where
  "new_ParaphraseRequest t nrs nb temp =
     \<lparr>text = t,
      num_return_sequences = (case nrs of None \<Rightarrow> 1 | Some v \<Rightarrow> v),
      num_beams = (case nb of None \<Rightarrow> 5 | Some v \<Rightarrow> v),
      temperature = (case temp of None \<Rightarrow> 1 | Some v \<Rightarrow> v)\<rparr>"

record ParaphraseResponse =
  original_text :: pystr
  paraphrases :: "pystr list"
  response_device :: pystr

datatype HTTPException = HTTPException (status_code: nat) (detail: pystr)

text \<open>
  The calls into the tokenizer and the model. \<open>tokenizer_call tk text max_length\<close> is
  \<open>tokenizer(text, return_tensors="pt", padding=True, truncation=True, max_length=...)\<close>,
  \<open>to_device\<close> is \<open>.to(device)\<close> on its result, \<open>generate\<close> takes the request's
  three parameters, \<open>max_length\<close> and \<open>do_sample\<close>, and \<open>decode\<close> takes
  \<open>skip_special_tokens\<close>. Each may raise.
\<close>

record capability =
  tokenizer_call :: "tokenizer_handle \<Rightarrow> pystr \<Rightarrow> nat \<Rightarrow> py_exception + encoding"
  to_device :: "encoding \<Rightarrow> pystr \<Rightarrow> py_exception + encoding"
  generate ::
    "model_handle \<Rightarrow> encoding \<Rightarrow> int \<Rightarrow> int \<Rightarrow> real \<Rightarrow> nat \<Rightarrow> bool \<Rightarrow> py_exception + sequence list"
  decode :: "tokenizer_handle \<Rightarrow> sequence \<Rightarrow> bool \<Rightarrow> py_exception + pystr"

text \<open>The list comprehension over \<open>outputs\<close>: the first \<open>decode\<close> that raises ends it.\<close>

fun decode_outputs ::
  "capability \<Rightarrow> tokenizer_handle \<Rightarrow> sequence list \<Rightarrow> state \<Rightarrow> (py_exception + pystr list) \<times> state"
where
  "decode_outputs caps tk [] s = (Inr [], s)"
| "decode_outputs caps tk (output # rest) s =
     (case decode caps tk output True of
        Inl e \<Rightarrow> (Inl e, emit (DecodeCall tk output) s)
      | Inr p \<Rightarrow>
          (case decode_outputs caps tk rest (emit (DecodeCall tk output) s) of
             (Inl e, s') \<Rightarrow> (Inl e, s')
           | (Inr ps, s') \<Rightarrow> (Inr (p # ps), s')))"

text \<open>The body of the \<open>try\<close> in \<open>paraphrase\<close>.\<close>

definition paraphrase_body ::
  "capability \<Rightarrow> tokenizer_handle \<Rightarrow> model_handle \<Rightarrow> ParaphraseRequest \<Rightarrow> state \<Rightarrow>
     (py_exception + ParaphraseResponse) \<times> state" where
  "paraphrase_body caps tk m request s =
     (let s1 = emit (TokenizerCall tk (text request)) s in
      case tokenizer_call caps tk (text request) 256 of
        Inl e \<Rightarrow> (Inl e, s1)
      | Inr enc \<Rightarrow>
          (case to_device caps enc (device s1) of
             Inl e \<Rightarrow> (Inl e, s1)
           | Inr input_ids \<Rightarrow>
               (let s2 = emit (GenerateCall m input_ids (num_return_sequences request)
                                 (num_beams request) (temperature request)) s1 in
                case generate caps m input_ids (num_return_sequences request)
                       (num_beams request) (temperature request) 256 True of
                  Inl e \<Rightarrow> (Inl e, s2)
                | Inr outputs \<Rightarrow>
                    (case decode_outputs caps tk outputs s2 of
                       (Inl e, s3) \<Rightarrow> (Inl e, s3)
                     | (Inr ps, s3) \<Rightarrow>
                         (Inr \<lparr>original_text = text request, paraphrases = ps,
                               response_device = device s3\<rparr>, s3)))))"

definition paraphrase ::
  "capability \<Rightarrow> ParaphraseRequest \<Rightarrow> state \<Rightarrow> (HTTPException + ParaphraseResponse) \<times> state" where
  "paraphrase caps request s =
     (if strip (text request) = []
      then (Inl (HTTPException 400 (ustr ''Text cannot be empty'')), s)
      else
        (case (model s, tokenizer s) of
           (Some m, Some tk) \<Rightarrow>
             (case paraphrase_body caps tk m request s of
                (Inr response, s') \<Rightarrow> (Inr response, s')
              | (Inl e, s') \<Rightarrow>
                  (Inl (HTTPException 500 (ustr ''Error during paraphrasing: '' @ message e)), s'))
         | _ \<Rightarrow> (Inl (HTTPException 503 (ustr ''Model not loaded'')), s)))"

section \<open>The health endpoint\<close>

text \<open>
  \<open>health\<close> builds a dictionary of four entries; \<open>torch.cuda.is_available()\<close> is asked
  again at each call, so its answer is an argument.
\<close>

record health_report =
  status :: pystr
  model_loaded :: bool
  health_device :: pystr
  cuda_available :: bool

definition health :: "bool \<Rightarrow> state \<Rightarrow> health_report" where
  "health cuda_is_available s =
     \<lparr>status = ustr ''healthy'', model_loaded = (model s \<noteq> None),
      health_device = device s, cuda_available = cuda_is_available\<rparr>"

section \<open>Observing the calls\<close>

text \<open>The texts that the tokenizer has been called with, in order.\<close>

fun tokenizer_inputs :: "event list \<Rightarrow> pystr list" where
  "tokenizer_inputs [] = []"
| "tokenizer_inputs (TokenizerCall tk t # evs) = t # tokenizer_inputs evs"
| "tokenizer_inputs (ev # evs) = tokenizer_inputs evs"

text \<open>
  Two concrete capabilities to run the endpoint on: one whose calls all return (the
  tokenizer truncates to \<open>max_length\<close>, \<open>generate\<close> returns the requested number of
  copies of its input, \<open>decode\<close> returns the sequence), and one whose \<open>generate\<close>
  raises.
\<close>

definition echo_capability :: capability where
  "echo_capability =
     \<lparr>tokenizer_call = (\<lambda>tk t max_length. Inr (take max_length t)),
      to_device = (\<lambda>enc dev. Inr enc),
      generate = (\<lambda>m ids nrs nb temp max_length do_sample. Inr (replicate (nat nrs) ids)),
      decode = (\<lambda>tk sq skip_special_tokens. Inr sq)\<rparr>"

definition failing_capability :: capability where
  "failing_capability =
     echo_capability\<lparr>generate :=
       (\<lambda>m ids nrs nb temp max_length do_sample. Inl (PyException (ustr ''out of memory'')))\<rparr>"

definition loaded_state :: state where
  "loaded_state =
     \<lparr>model = Some (T5ForConditionalGeneration 1), tokenizer = Some (T5Tokenizer 1),
      device = ustr ''cpu'', events = []\<rparr>"

section \<open>Properties of the validator\<close>

lemma concat_singletons: "concat (map (\<lambda>x. [x]) xs) = xs"
  by (induction xs) simp_all

lemma filter_text_filter: "filter_text s = filter is_valid_char s"
  by (simp add: filter_text_def concat_singletons)

lemma chars_valid_iff: "chars_valid s \<longleftrightarrow> (\<forall>c \<in> set s. is_valid_char c)"
  by (induction s) simp_all

lemma is_valid_char_vertical_tab: "is_valid_char 11"
  by (simp add: is_valid_char_def ALLOWED_PATTERNS_def unicode_space_def cyrillic_def
      latin_def digit_def)

text \<open>
  A valid character is forbidden only if it is the vertical tab or the form feed; on a
  string without these two, a non-empty filtered string is valid.
\<close>

lemma forbidden_and_valid:
  "is_valid_char c \<Longrightarrow> c \<in> FORBIDDEN_CHARS \<Longrightarrow> c = 11 \<or> c = 12"
  by (auto simp: is_valid_char_def ALLOWED_PATTERNS_def FORBIDDEN_CHARS_def cyrillic_def
      latin_def digit_def unicode_space_def punctuation_def)

lemma filter_text_valid_without_vt_ff:
  assumes "filter_text s \<noteq> []" and "11 \<notin> set s" and "12 \<notin> set s"
  shows "is_valid_text (filter_text s)"
proof -
  have "\<forall>c \<in> set (filter is_valid_char s). c \<notin> FORBIDDEN_CHARS"
    using assms(2,3) forbidden_and_valid by auto
  with assms(1) show ?thesis
    by (simp add: is_valid_text_def filter_text_filter chars_valid_iff list_ex_iff)
qed

text \<open>
  C9. \<open>filter_text\<close> is idempotent: filtering an already filtered string returns it
  unchanged, for every string.
\<close>

theorem filter_text_idempotent: "filter_text (filter_text s) = filter_text s"
  by (simp add: filter_text_filter)

text \<open>
  C3, evaluated where it fails. The vertical tab U+000B matches the whitespace class, so
  \<open>filter_text\<close> keeps it; it is also a member of \<open>FORBIDDEN_CHARS\<close>, so
  \<open>is_valid_text\<close> rejects the non-empty filtered string.
\<close>

theorem filter_text_keeps_forbidden_char:
  "filter_text [11] = [11] \<and> filter_text [11] \<noteq> [] \<and> \<not> is_valid_text (filter_text [11])"
  by (simp add: filter_text_filter is_valid_char_vertical_tab is_valid_text_def
      FORBIDDEN_CHARS_def)

section \<open>Properties of load_model\<close>

lemma upt_three: "[0..<3] = [0, 1, 2]"
  by (simp add: upt_rec)

lemma try_load_fst: "fst (try_load out s) = (case raised out of Some e \<Rightarrow> Inl e | None \<Rightarrow> Inr ())"
  by (cases out) simp_all

lemma try_load_events: "events (snd (try_load out s)) = events s"
  by (cases out) simp_all

lemma try_load_device: "device (snd (try_load out s)) = device s"
  by (cases out) simp_all

lemma try_load_model:
  "model (snd (try_load out s)) = (case fetched_model out of Some m \<Rightarrow> Some m | None \<Rightarrow> model s)"
  by (cases out) simp_all

lemma try_load_tokenizer:
  "tokenizer (snd (try_load out s)) =
     (case fetched_tokenizer out of Some t \<Rightarrow> Some t | None \<Rightarrow> tokenizer s)"
  by (cases out) simp_all

lemma emit_fields:
  "model (emit ev s) = model s" "tokenizer (emit ev s) = tokenizer s"
  "device (emit ev s) = device s" "events (emit ev s) = events s @ [ev]"
  by (simp_all add: emit_def)

lemma load_attempts_step:
  "load_attempts f n (a # rest) d s =
     (let r = try_load (f a) (emit (FetchAttempt a) s) in
      case fst r of
        Inr u \<Rightarrow> (Inr u, snd r)
      | Inl e \<Rightarrow> if a < n - 1 then load_attempts f n rest (d * 2) (emit (Sleep d) (snd r))
                 else (Inl e, snd r))"
  by (simp add: Let_def split: prod.splits sum.splits)

lemmas load_simps = load_model_def upt_three load_attempts_step try_load_fst try_load_events
  try_load_device try_load_model try_load_tokenizer emit_fields Let_def

section \<open>The gates of paraphrase\<close>

lemma paraphrase_blank:
  "strip (text req) = [] \<Longrightarrow>
     paraphrase caps req s = (Inl (HTTPException 400 (ustr ''Text cannot be empty'')), s)"
  by (simp add: paraphrase_def)

lemma paraphrase_not_loaded:
  "strip (text req) \<noteq> [] \<Longrightarrow> model s = None \<or> tokenizer s = None \<Longrightarrow>
     paraphrase caps req s = (Inl (HTTPException 503 (ustr ''Model not loaded'')), s)"
  by (auto simp: paraphrase_def split: option.splits)

section \<open>Exhausted and successful loads\<close>




text \<open>A load in which no attempt comes back from the model fetch leaves the model handle unset.\<close>

lemma no_model_fetched:
  assumes "model s = None"
    and "fetched_model (f 0) = None" and "fetched_model (f 1) = None"
    and "fetched_model (f 2) = None"
  shows "model (snd (load_model f s)) = None"
  using assms
  by (auto simp add: load_simps split: option.splits sum.splits simp del: load_attempts.simps)

text \<open>
  C2. From a state that is not loaded, \<open>load_model\<close> makes one, two or three attempts,
  sleeping 5 after the first failure and 10 after the second and never after the third:
  one attempt when the first does not raise, two with the sleep 5 between them when only
  the first raises, three with the sleeps 5 and 10 when the first two raise. When the
  first two attempts raise and the third loads, it returns normally after the sleeps 5
  and 10, with the model and tokenizer handles of the third attempt set.
\<close>

theorem load_model_retry_backoff:
  assumes "model s = None \<or> tokenizer s = None"
  shows "(events (snd (load_model f s)) = events s @ [FetchAttempt 0] \<or>
          events (snd (load_model f s)) = events s @ [FetchAttempt 0, Sleep 5, FetchAttempt 1] \<or>
          events (snd (load_model f s)) =
            events s @ [FetchAttempt 0, Sleep 5, FetchAttempt 1, Sleep 10, FetchAttempt 2]) \<and>
         (raised (f 0) \<noteq> None \<and> raised (f 1) \<noteq> None \<and> f 2 = Loaded t m \<longrightarrow>
            fst (load_model f s) = Inr () \<and>
            events (snd (load_model f s)) =
              events s @ [FetchAttempt 0, Sleep 5, FetchAttempt 1, Sleep 10, FetchAttempt 2] \<and>
            model (snd (load_model f s)) = Some m \<and> tokenizer (snd (load_model f s)) = Some t) \<and>
         (raised (f 0) = None \<longrightarrow>
            events (snd (load_model f s)) = events s @ [FetchAttempt 0]) \<and>
         (raised (f 0) \<noteq> None \<and> raised (f 1) = None \<longrightarrow>
            events (snd (load_model f s)) =
              events s @ [FetchAttempt 0, Sleep 5, FetchAttempt 1]) \<and>
         (raised (f 0) \<noteq> None \<and> raised (f 1) \<noteq> None \<longrightarrow>
            events (snd (load_model f s)) =
              events s @ [FetchAttempt 0, Sleep 5, FetchAttempt 1, Sleep 10, FetchAttempt 2])"
  using assms by (auto simp add: load_simps simp del: load_attempts.simps split: option.splits)

text \<open>An instance: two failed tokenizer fetches, then a load.\<close>

theorem load_model_retry_backoff_witness:
  "fst (load_model (\<lambda>i. if i < 2 then TokenizerRaises (PyException (ustr ''offline''))
                         else Loaded (T5Tokenizer 1) (T5ForConditionalGeneration 1))
          (module_init False)) = Inr () \<and>
   events (snd (load_model (\<lambda>i. if i < 2 then TokenizerRaises (PyException (ustr ''offline''))
                         else Loaded (T5Tokenizer 1) (T5ForConditionalGeneration 1))
          (module_init False))) =
     [FetchAttempt 0, Sleep 5, FetchAttempt 1, Sleep 10, FetchAttempt 2] \<and>
   model (snd (load_model (\<lambda>i. if i < 2 then TokenizerRaises (PyException (ustr ''offline''))
                         else Loaded (T5Tokenizer 1) (T5ForConditionalGeneration 1))
          (module_init False))) = Some (T5ForConditionalGeneration 1)"
  using load_model_retry_backoff [where s = "module_init False"
      and f = "\<lambda>i. if i < 2 then TokenizerRaises (PyException (ustr ''offline''))
                         else Loaded (T5Tokenizer 1) (T5ForConditionalGeneration 1)"
      and t = "T5Tokenizer 1" and m = "T5ForConditionalGeneration 1"]
  by (simp add: module_init_def)

section \<open>Properties of the paraphrase endpoint\<close>

lemma tokenizer_inputs_append:
  "tokenizer_inputs (xs @ ys) = tokenizer_inputs xs @ tokenizer_inputs ys"
  by (induction xs rule: tokenizer_inputs.induct) simp_all

lemma decode_outputs_step:
  "decode_outputs caps tk (out # rest) s =
     (case decode caps tk out True of
        Inl e \<Rightarrow> (Inl e, emit (DecodeCall tk out) s)
      | Inr p \<Rightarrow>
          (case fst (decode_outputs caps tk rest (emit (DecodeCall tk out) s)) of
             Inl e \<Rightarrow> Inl e
           | Inr ps \<Rightarrow> Inr (p # ps),
           snd (decode_outputs caps tk rest (emit (DecodeCall tk out) s))))"
  by (simp split: sum.splits prod.splits)

lemma decode_outputs_fields:
  "model (snd (decode_outputs caps tk outs s)) = model s \<and>
   tokenizer (snd (decode_outputs caps tk outs s)) = tokenizer s \<and>
   device (snd (decode_outputs caps tk outs s)) = device s \<and>
   tokenizer_inputs (events (snd (decode_outputs caps tk outs s))) = tokenizer_inputs (events s)"
proof (induction outs arbitrary: s)
  case Nil
  show ?case by simp
next
  case (Cons out rest)
  show ?case
  proof (cases "decode caps tk out True")
    case (Inl e)
    then show ?thesis
      by (simp add: decode_outputs_step emit_fields tokenizer_inputs_append
          del: decode_outputs.simps)
  next
    case (Inr p)
    then show ?thesis
      using Cons.IH [of "emit (DecodeCall tk out) s"]
      by (simp add: decode_outputs_step emit_fields tokenizer_inputs_append
          del: decode_outputs.simps)
  qed
qed

lemma decode_outputs_first_failure:
  "\<forall>d \<in> set ok. \<exists>p. decode caps tk d True = Inr p \<Longrightarrow> decode caps tk out True = Inl e \<Longrightarrow>
     fst (decode_outputs caps tk (ok @ out # rest) s) = Inl e"
proof (induction ok arbitrary: s)
  case Nil
  then show ?case by (simp add: decode_outputs_step del: decode_outputs.simps)
next
  case (Cons d ok)
  from Cons.prems(1) obtain p where p: "decode caps tk d True = Inr p" by auto
  from Cons.prems have "fst (decode_outputs caps tk (ok @ out # rest) (emit (DecodeCall tk d) s)) = Inl e"
    by (intro Cons.IH) auto
  with p show ?case by (simp add: decode_outputs_step del: decode_outputs.simps)
qed


lemma decode_outputs_device:
  "decode_outputs caps tk outs s = (r, s') \<Longrightarrow> device s' = device s"
  using decode_outputs_fields [of caps tk outs s] by simp

lemma paraphrase_body_unfold:
  "paraphrase_body caps tk m req s =
     (case tokenizer_call caps tk (text req) 256 of
        Inl e \<Rightarrow> (Inl e, emit (TokenizerCall tk (text req)) s)
      | Inr enc \<Rightarrow>
          (case to_device caps enc (device s) of
             Inl e \<Rightarrow> (Inl e, emit (TokenizerCall tk (text req)) s)
           | Inr ids \<Rightarrow>
               (case generate caps m ids (num_return_sequences req) (num_beams req)
                       (temperature req) 256 True of
                  Inl e \<Rightarrow>
                    (Inl e, emit (GenerateCall m ids (num_return_sequences req) (num_beams req)
                                    (temperature req)) (emit (TokenizerCall tk (text req)) s))
                | Inr outs \<Rightarrow>
                    (case fst (decode_outputs caps tk outs
                            (emit (GenerateCall m ids (num_return_sequences req) (num_beams req)
                                    (temperature req)) (emit (TokenizerCall tk (text req)) s))) of
                       Inl e \<Rightarrow> Inl e
                     | Inr ps \<Rightarrow>
                         Inr \<lparr>original_text = text req, paraphrases = ps,
                              response_device = device s\<rparr>,
                     snd (decode_outputs caps tk outs
                            (emit (GenerateCall m ids (num_return_sequences req) (num_beams req)
                                    (temperature req)) (emit (TokenizerCall tk (text req)) s)))))))"
  unfolding paraphrase_body_def Let_def
  by (auto simp: emit_fields split: sum.split prod.split dest: decode_outputs_device)


lemma paraphrase_body_fields:
  "model (snd (paraphrase_body caps tk m req s)) = model s \<and>
   tokenizer (snd (paraphrase_body caps tk m req s)) = tokenizer s \<and>
   device (snd (paraphrase_body caps tk m req s)) = device s \<and>
   tokenizer_inputs (events (snd (paraphrase_body caps tk m req s))) =
     tokenizer_inputs (events s) @ [text req]"
  by (simp add: paraphrase_body_unfold emit_fields decode_outputs_fields tokenizer_inputs_append
      split: sum.split)

lemma paraphrase_body_original_text:
  "fst (paraphrase_body caps tk m req s) = Inr resp \<Longrightarrow> original_text resp = text req"
  by (auto simp: paraphrase_body_unfold split: sum.splits)

lemma paraphrase_loaded:
  "strip (text req) \<noteq> [] \<Longrightarrow> model s = Some m \<Longrightarrow> tokenizer s = Some tk \<Longrightarrow>
     paraphrase caps req s =
       (case fst (paraphrase_body caps tk m req s) of
          Inr response \<Rightarrow> Inr response
        | Inl e \<Rightarrow> Inl (HTTPException 500 (ustr ''Error during paraphrasing: '' @ message e)),
        snd (paraphrase_body caps tk m req s))"
  by (simp add: paraphrase_def split: sum.split prod.split)

lemma paraphrase_body_failure:
  assumes "tokenizer_call caps tk (text req) 256 = Inl e \<or>
     (\<exists>enc. tokenizer_call caps tk (text req) 256 = Inr enc \<and>
        to_device caps enc (device s) = Inl e) \<or>
     (\<exists>enc ids. tokenizer_call caps tk (text req) 256 = Inr enc \<and>
        to_device caps enc (device s) = Inr ids \<and>
        generate caps m ids (num_return_sequences req) (num_beams req) (temperature req)
          256 True = Inl e) \<or>
     (\<exists>enc ids ok out rest. tokenizer_call caps tk (text req) 256 = Inr enc \<and>
        to_device caps enc (device s) = Inr ids \<and>
        generate caps m ids (num_return_sequences req) (num_beams req) (temperature req)
          256 True = Inr (ok @ out # rest) \<and>
        (\<forall>d \<in> set ok. \<exists>p. decode caps tk d True = Inr p) \<and>
        decode caps tk out True = Inl e)"
  shows "fst (paraphrase_body caps tk m req s) = Inl e"
  using assms
proof (elim disjE exE conjE)
  assume "tokenizer_call caps tk (text req) 256 = Inl e"
  then show ?thesis by (simp add: paraphrase_body_unfold)
next
  fix enc
  assume "tokenizer_call caps tk (text req) 256 = Inr enc" "to_device caps enc (device s) = Inl e"
  then show ?thesis by (simp add: paraphrase_body_unfold)
next
  fix enc ids
  assume "tokenizer_call caps tk (text req) 256 = Inr enc" "to_device caps enc (device s) = Inr ids"
    "generate caps m ids (num_return_sequences req) (num_beams req) (temperature req)
          256 True = Inl e"
  then show ?thesis by (simp add: paraphrase_body_unfold)
next
  fix enc ids ok out rest
  assume "tokenizer_call caps tk (text req) 256 = Inr enc" "to_device caps enc (device s) = Inr ids"
    "generate caps m ids (num_return_sequences req) (num_beams req) (temperature req)
          256 True = Inr (ok @ out # rest)"
    and ok: "\<forall>d \<in> set ok. \<exists>p. decode caps tk d True = Inr p"
    and out: "decode caps tk out True = Inl e"
  then show ?thesis
    by (simp add: paraphrase_body_unfold decode_outputs_first_failure [OF ok out])
qed

lemma sublist_suffix_part: "sublist ys (xs @ ys)"
  unfolding sublist_def by (rule exI [of _ xs], rule exI [of _ "[]"]) simp

text \<open>
  C4. When the text of the request is empty after \<open>strip()\<close>, \<open>paraphrase\<close> raises
  the HTTP error 400 whose detail contains "cannot be empty", whatever the handles are,
  and leaves the state as it was: no call to the tokenizer or the model is recorded.
\<close>

theorem paraphrase_rejects_blank:
  assumes "strip (text req) = []"
  shows "paraphrase caps req s = (Inl (HTTPException 400 (ustr ''Text cannot be empty'')), s) \<and>
         sublist (ustr ''cannot be empty'')
           (detail (HTTPException 400 (ustr ''Text cannot be empty'')))"
proof -
  have "ustr ''Text cannot be empty'' = ustr ''Text '' @ ustr ''cannot be empty''"
    by (simp add: ustr_def)
  then have "sublist (ustr ''cannot be empty'') (ustr ''Text cannot be empty'')"
    by (simp add: sublist_suffix_part)
  with assms show ?thesis by (simp add: paraphrase_blank)
qed

lemma strip_spaces: "strip (ustr ''   '') = []"
  by (simp add: strip_def ustr_def unicode_space_def)

text \<open>Instances: three spaces with the model loaded, the empty text before loading.\<close>

theorem paraphrase_rejects_blank_witness:
  "paraphrase echo_capability (new_ParaphraseRequest (ustr ''   '') None None None) loaded_state =
     (Inl (HTTPException 400 (ustr ''Text cannot be empty'')), loaded_state) \<and>
   paraphrase echo_capability (new_ParaphraseRequest [] None None None) (module_init False) =
     (Inl (HTTPException 400 (ustr ''Text cannot be empty'')), module_init False)"
  using paraphrase_rejects_blank [of "new_ParaphraseRequest (ustr ''   '') None None None"
      echo_capability loaded_state]
    paraphrase_rejects_blank [of "new_ParaphraseRequest [] None None None"
      echo_capability "module_init False"]
  by (simp add: new_ParaphraseRequest_def strip_spaces) (simp add: strip_def)

text \<open>
  C5, as amended. When the text is not blank and the model handle or the tokenizer handle
  is unset, \<open>paraphrase\<close> returns at once with the HTTP error 503 "Model not loaded";
  the state is unchanged, so nothing was called and nothing was waited for. The handles
  are in that case before \<open>load_model\<close> has run, and after a \<open>load_model\<close> in which no
  attempt came back from the model fetch.
\<close>

theorem paraphrase_unavailable:
  assumes "strip (text req) \<noteq> []"
  shows "(model s = None \<or> tokenizer s = None \<longrightarrow>
            paraphrase caps req s = (Inl (HTTPException 503 (ustr ''Model not loaded'')), s)) \<and>
         paraphrase caps req (module_init a) =
           (Inl (HTTPException 503 (ustr ''Model not loaded'')), module_init a) \<and>
         (fetched_model (f 0) = None \<and> fetched_model (f 1) = None \<and> fetched_model (f 2) = None
            \<longrightarrow> paraphrase caps req (snd (load_model f (module_init a))) =
                  (Inl (HTTPException 503 (ustr ''Model not loaded'')),
                   snd (load_model f (module_init a))))"
proof -
  have init: "model (module_init a) = None" by (simp add: module_init_def)
  have gate: "paraphrase caps req x = (Inl (HTTPException 503 (ustr ''Model not loaded'')), x)"
    if "model x = None \<or> tokenizer x = None" for x
    using assms that by (rule paraphrase_not_loaded)
  show ?thesis
    using gate [of s] gate [of "module_init a"] gate [of "snd (load_model f (module_init a))"]
      no_model_fetched [of "module_init a" f] init
    by blast
qed

lemma strip_Hello: "strip (ustr ''Hello'') = ustr ''Hello''"
  by (simp add: strip_def ustr_def unicode_space_def)

text \<open>
  Instances: a request that arrives before \<open>load_model\<close> has run, and one that arrives
  after a load whose three model fetches raised.
\<close>

theorem paraphrase_unavailable_witness:
  "paraphrase echo_capability (new_ParaphraseRequest (ustr ''Hello'') None None None)
     (module_init False) =
     (Inl (HTTPException 503 (ustr ''Model not loaded'')), module_init False) \<and>
   paraphrase echo_capability (new_ParaphraseRequest (ustr ''Hello'') None None None)
     (snd (load_model (\<lambda>i. ModelRaises (T5Tokenizer 0) (PyException (ustr ''offline'')))
            (module_init False))) =
     (Inl (HTTPException 503 (ustr ''Model not loaded'')),
      snd (load_model (\<lambda>i. ModelRaises (T5Tokenizer 0) (PyException (ustr ''offline'')))
            (module_init False)))"
  using paraphrase_unavailable [where req = "new_ParaphraseRequest (ustr ''Hello'') None None None"
      and caps = echo_capability and a = False and s = "module_init False"
      and f = "\<lambda>i. ModelRaises (T5Tokenizer 0) (PyException (ustr ''offline''))"]
  by (simp add: new_ParaphraseRequest_def strip_Hello) (simp add: ustr_def)

text \<open>
  The state that \<open>load_model\<close> leaves when \<open>model.to(device)\<close> raises in each attempt:
  the load has failed and both handles are set.
\<close>

lemma device_failure_state:
  "fst (load_model (\<lambda>i. ToDeviceRaises (T5Tokenizer 0) (T5ForConditionalGeneration 0)
                          (PyException (ustr ''out of memory''))) (module_init a)) =
     Inl (PyException (ustr ''out of memory''))"
  "model (snd (load_model (\<lambda>i. ToDeviceRaises (T5Tokenizer 0) (T5ForConditionalGeneration 0)
                          (PyException (ustr ''out of memory''))) (module_init a))) =
     Some (T5ForConditionalGeneration 0)"
  "tokenizer (snd (load_model (\<lambda>i. ToDeviceRaises (T5Tokenizer 0) (T5ForConditionalGeneration 0)
                          (PyException (ustr ''out of memory''))) (module_init a))) =
     Some (T5Tokenizer 0)"
  "device (snd (load_model (\<lambda>i. ToDeviceRaises (T5Tokenizer 0) (T5ForConditionalGeneration 0)
                          (PyException (ustr ''out of memory''))) (module_init a))) =
     (if a then ustr ''cuda'' else ustr ''cpu'')"
  by (simp_all add: load_simps module_init_def del: load_attempts.simps)

text \<open>
  C5 as stated fails: after that failed load a request with the text "Hello" passes the
  gate and is answered with a response, not with 503.
\<close>

theorem paraphrase_after_device_failure_counterexample:
  "fst (load_model (\<lambda>i. ToDeviceRaises (T5Tokenizer 0) (T5ForConditionalGeneration 0)
                          (PyException (ustr ''out of memory''))) (module_init False)) =
     Inl (PyException (ustr ''out of memory'')) \<and>
   fst (paraphrase echo_capability (new_ParaphraseRequest (ustr ''Hello'') None None None)
          (snd (load_model (\<lambda>i. ToDeviceRaises (T5Tokenizer 0) (T5ForConditionalGeneration 0)
                          (PyException (ustr ''out of memory''))) (module_init False)))) =
     Inr \<lparr>original_text = ustr ''Hello'', paraphrases = [ustr ''Hello''],
          response_device = ustr ''cpu''\<rparr>"
proof -
  define s' where "s' = snd (load_model (\<lambda>i. ToDeviceRaises (T5Tokenizer 0)
      (T5ForConditionalGeneration 0) (PyException (ustr ''out of memory''))) (module_init False))"
  define req where "req = new_ParaphraseRequest (ustr ''Hello'') None None None"
  have handles: "model s' = Some (T5ForConditionalGeneration 0)"
    "tokenizer s' = Some (T5Tokenizer 0)" "device s' = ustr ''cpu''"
    unfolding s'_def by (simp_all add: device_failure_state)
  have nonblank: "strip (text req) \<noteq> []"
    unfolding req_def by (simp add: new_ParaphraseRequest_def strip_Hello) (simp add: ustr_def)
  have body: "fst (paraphrase_body echo_capability (T5Tokenizer 0) (T5ForConditionalGeneration 0)
      req s') = Inr \<lparr>original_text = ustr ''Hello'', paraphrases = [ustr ''Hello''],
          response_device = ustr ''cpu''\<rparr>"
    unfolding req_def
    by (simp add: paraphrase_body_unfold echo_capability_def new_ParaphraseRequest_def handles
        ustr_def)
  have "fst (paraphrase echo_capability req s') =
      Inr \<lparr>original_text = ustr ''Hello'', paraphrases = [ustr ''Hello''],
          response_device = ustr ''cpu''\<rparr>"
    by (simp add: paraphrase_loaded [OF nonblank handles(1) handles(2)] body)
  then show ?thesis
    unfolding s'_def req_def by (simp add: device_failure_state(1))
qed


lemma paraphrase_fields:
  "model (snd (paraphrase caps req s)) = model s \<and>
   tokenizer (snd (paraphrase caps req s)) = tokenizer s \<and>
   device (snd (paraphrase caps req s)) = device s"
proof (cases "strip (text req) = []")
  case True
  then show ?thesis by (simp add: paraphrase_blank)
next
  case False
  show ?thesis
  proof (cases "model s = None \<or> tokenizer s = None")
    case True
    with False show ?thesis by (simp add: paraphrase_not_loaded)
  next
    case False
    then obtain m tk where "model s = Some m" "tokenizer s = Some tk" by auto
    with \<open>strip (text req) \<noteq> []\<close> show ?thesis
      by (simp add: paraphrase_loaded paraphrase_body_fields)
  qed
qed

text \<open>
  C6. With a text that is not blank and both handles set, an exception raised by the
  tokenizer call, by the move to the device, by \<open>generate\<close> or by the first failing
  \<open>decode\<close> is turned into the HTTP error 500 whose detail ends with the message of
  that exception; the model handle, the tokenizer handle and the device are unchanged.
\<close>

theorem paraphrase_generation_failed:
  assumes "strip (text req) \<noteq> []" and "model s = Some m" and "tokenizer s = Some tk"
    and "tokenizer_call caps tk (text req) 256 = Inl e \<or>
     (\<exists>enc. tokenizer_call caps tk (text req) 256 = Inr enc \<and>
        to_device caps enc (device s) = Inl e) \<or>
     (\<exists>enc ids. tokenizer_call caps tk (text req) 256 = Inr enc \<and>
        to_device caps enc (device s) = Inr ids \<and>
        generate caps m ids (num_return_sequences req) (num_beams req) (temperature req)
          256 True = Inl e) \<or>
     (\<exists>enc ids ok out rest. tokenizer_call caps tk (text req) 256 = Inr enc \<and>
        to_device caps enc (device s) = Inr ids \<and>
        generate caps m ids (num_return_sequences req) (num_beams req) (temperature req)
          256 True = Inr (ok @ out # rest) \<and>
        (\<forall>d \<in> set ok. \<exists>p. decode caps tk d True = Inr p) \<and>
        decode caps tk out True = Inl e)"
  shows "fst (paraphrase caps req s) =
           Inl (HTTPException 500 (ustr ''Error during paraphrasing: '' @ message e)) \<and>
         sublist (message e)
           (detail (HTTPException 500 (ustr ''Error during paraphrasing: '' @ message e))) \<and>
         model (snd (paraphrase caps req s)) = model s \<and>
         tokenizer (snd (paraphrase caps req s)) = tokenizer s \<and>
         device (snd (paraphrase caps req s)) = device s"
proof -
  have "fst (paraphrase_body caps tk m req s) = Inl e"
    using assms(4) by (rule paraphrase_body_failure)
  with assms(1-3) show ?thesis
    by (simp add: paraphrase_loaded paraphrase_body_fields sublist_suffix_part)
qed

text \<open>An instance: \<open>generate\<close> raises on a loaded service.\<close>

theorem paraphrase_generation_failed_witness:
  "fst (paraphrase failing_capability (new_ParaphraseRequest (ustr ''Hello'') None None None)
          loaded_state) =
     Inl (HTTPException 500 (ustr ''Error during paraphrasing: out of memory'')) \<and>
   model (snd (paraphrase failing_capability
          (new_ParaphraseRequest (ustr ''Hello'') None None None) loaded_state)) =
     Some (T5ForConditionalGeneration 1) \<and>
   tokenizer (snd (paraphrase failing_capability
          (new_ParaphraseRequest (ustr ''Hello'') None None None) loaded_state)) =
     Some (T5Tokenizer 1)"
  using paraphrase_generation_failed [where caps = failing_capability
      and req = "new_ParaphraseRequest (ustr ''Hello'') None None None" and s = loaded_state
      and m = "T5ForConditionalGeneration 1" and tk = "T5Tokenizer 1"
      and e = "PyException (ustr ''out of memory'')"]
  by (simp add: new_ParaphraseRequest_def strip_Hello failing_capability_def
      echo_capability_def loaded_state_def) (simp add: ustr_def)

lemma decode_outputs_all:
  "list_all2 (\<lambda>out p. decode caps tk out True = Inr p) outs ps \<Longrightarrow>
     fst (decode_outputs caps tk outs s) = Inr ps"
proof (induction outs ps arbitrary: s rule: list_all2_induct)
  case Nil
  show ?case by simp
next
  case (Cons out p outs ps)
  from Cons.IH [of "emit (DecodeCall tk out) s"] Cons.hyps(1) show ?case
    by (simp add: decode_outputs_step del: decode_outputs.simps)
qed

lemma paraphrase_body_success:
  assumes "tokenizer_call caps tk (text req) 256 = Inr enc"
    and "to_device caps enc (device s) = Inr ids"
    and "generate caps m ids (num_return_sequences req) (num_beams req) (temperature req)
           256 True = Inr outs"
    and "list_all2 (\<lambda>out p. decode caps tk out True = Inr p) outs ps"
  shows "fst (paraphrase_body caps tk m req s) =
           Inr \<lparr>original_text = text req, paraphrases = ps, response_device = device s\<rparr>"
  using assms(1-3) by (simp add: paraphrase_body_unfold decode_outputs_all [OF assms(4)])

text \<open>
  C10. With a text that is not blank and both handles set, the tokenizer is applied to the
  text of the request as it came: it is called exactly once, with that text; if it raises
  on that text the answer is the error 500 with its message; and if it, the move to the
  device, \<open>generate\<close> and every \<open>decode\<close> return, the answer is the response made of
  the request's text as \<open>original_text\<close>, the decoded outputs in order, and the device.
  A response that is returned always carries the request's text. No character is
  validated or filtered on the way.
\<close>

theorem paraphrase_text_verbatim:
  assumes "strip (text req) \<noteq> []" and "model s = Some m" and "tokenizer s = Some tk"
  shows "tokenizer_inputs (events (snd (paraphrase caps req s))) =
           tokenizer_inputs (events s) @ [text req] \<and>
         (\<forall>e. tokenizer_call caps tk (text req) 256 = Inl e \<longrightarrow>
            fst (paraphrase caps req s) =
              Inl (HTTPException 500 (ustr ''Error during paraphrasing: '' @ message e))) \<and>
         (\<forall>enc ids outs ps.
            tokenizer_call caps tk (text req) 256 = Inr enc \<and>
            to_device caps enc (device s) = Inr ids \<and>
            generate caps m ids (num_return_sequences req) (num_beams req) (temperature req)
              256 True = Inr outs \<and>
            list_all2 (\<lambda>out p. decode caps tk out True = Inr p) outs ps \<longrightarrow>
            fst (paraphrase caps req s) =
              Inr \<lparr>original_text = text req, paraphrases = ps, response_device = device s\<rparr>) \<and>
         (\<forall>resp. fst (paraphrase caps req s) = Inr resp \<longrightarrow> original_text resp = text req)"
proof (intro conjI allI impI)
  show "tokenizer_inputs (events (snd (paraphrase caps req s))) =
      tokenizer_inputs (events s) @ [text req]"
    using assms by (simp add: paraphrase_loaded paraphrase_body_fields)
next
  fix e
  assume "tokenizer_call caps tk (text req) 256 = Inl e"
  then have "fst (paraphrase_body caps tk m req s) = Inl e"
    by (simp add: paraphrase_body_unfold)
  with assms show "fst (paraphrase caps req s) =
      Inl (HTTPException 500 (ustr ''Error during paraphrasing: '' @ message e))"
    by (simp add: paraphrase_loaded)
next
  fix enc ids outs ps
  assume "tokenizer_call caps tk (text req) 256 = Inr enc \<and>
      to_device caps enc (device s) = Inr ids \<and>
      generate caps m ids (num_return_sequences req) (num_beams req) (temperature req)
        256 True = Inr outs \<and>
      list_all2 (\<lambda>out p. decode caps tk out True = Inr p) outs ps"
  then have "fst (paraphrase_body caps tk m req s) =
      Inr \<lparr>original_text = text req, paraphrases = ps, response_device = device s\<rparr>"
    by (intro paraphrase_body_success) auto
  with assms show "fst (paraphrase caps req s) =
      Inr \<lparr>original_text = text req, paraphrases = ps, response_device = device s\<rparr>"
    by (simp add: paraphrase_loaded)
next
  fix resp
  assume "fst (paraphrase caps req s) = Inr resp"
  with assms show "original_text resp = text req"
    by (auto simp: paraphrase_loaded split: sum.splits dest: paraphrase_body_original_text)
qed

text \<open>
  An instance: the text \<open>a<b>\<close> followed by U+0000, which \<open>filter_text\<close> would
  shorten to \<open>ab\<close>, reaches the tokenizer and comes back as \<open>original_text\<close> whole.
\<close>

theorem paraphrase_text_verbatim_witness:
  "tokenizer_inputs (events (snd (paraphrase echo_capability
      (new_ParaphraseRequest [97, 60, 98, 62, 0] None None None) loaded_state))) =
     [[97, 60, 98, 62, 0]] \<and>
   fst (paraphrase echo_capability
      (new_ParaphraseRequest [97, 60, 98, 62, 0] None None None) loaded_state) =
     Inr \<lparr>original_text = [97, 60, 98, 62, 0], paraphrases = [[97, 60, 98, 62, 0]],
          response_device = ustr ''cpu''\<rparr> \<and>
   filter_text [97, 60, 98, 62, 0] = [97, 98]"
proof -
  define req where "req = new_ParaphraseRequest [97, 60, 98, 62, 0] None None None"
  have req: "text req = [97, 60, 98, 62, 0]" "num_return_sequences req = 1"
    by (simp_all add: req_def new_ParaphraseRequest_def)
  have nonblank: "strip (text req) \<noteq> []"
    by (simp add: req strip_def unicode_space_def)
  have filtered: "filter_text [97, 60, 98, 62, 0] = [97, 98]"
    by (simp add: filter_text_filter is_valid_char_def ALLOWED_PATTERNS_def cyrillic_def
        latin_def digit_def unicode_space_def punctuation_def)
  have st: "model loaded_state = Some (T5ForConditionalGeneration 1)"
    "tokenizer loaded_state = Some (T5Tokenizer 1)" "device loaded_state = ustr ''cpu''"
    "events loaded_state = []"
    by (simp_all add: loaded_state_def)
  have calls: "tokenizer_call echo_capability (T5Tokenizer 1) (text req) 256 = Inr (text req)"
    "to_device echo_capability (text req) (device loaded_state) = Inr (text req)"
    "generate echo_capability (T5ForConditionalGeneration 1) (text req)
       (num_return_sequences req) (num_beams req) (temperature req) 256 True = Inr [text req]"
    "list_all2 (\<lambda>out p. decode echo_capability (T5Tokenizer 1) out True = Inr p)
       [text req] [text req]"
    by (simp_all add: echo_capability_def req)
  from paraphrase_text_verbatim [OF nonblank st(1) st(2), of echo_capability] calls
  have "tokenizer_inputs (events (snd (paraphrase echo_capability req loaded_state))) =
      [text req]"
    and "fst (paraphrase echo_capability req loaded_state) =
      Inr \<lparr>original_text = text req, paraphrases = [text req],
           response_device = device loaded_state\<rparr>"
    by (simp add: st(4), blast)
  with filtered show ?thesis
    unfolding req_def [symmetric] by (simp add: req st(3))
qed

section \<open>Properties of the health endpoint\<close>

lemma loaded_fetches_model: "raised out = None \<Longrightarrow> fetched_model out \<noteq> None"
  by (cases out) simp_all

lemma load_model_device: "device (snd (load_model f s)) = device s"
  by (simp add: load_simps split: option.split sum.split del: load_attempts.simps)

lemma load_model_loaded:
  assumes "model s = None \<or> tokenizer s = None" and "fst (load_model f s) = Inr ()"
  shows "model (snd (load_model f s)) \<noteq> None"
proof (cases "raised (f 0)"; cases "raised (f 1)"; cases "raised (f 2)")
qed (use assms loaded_fetches_model [of "f 0"] loaded_fetches_model [of "f 1"]
      loaded_fetches_model [of "f 2"]
    in \<open>auto simp add: load_simps simp del: load_attempts.simps\<close>)

lemma try_load_paired:
  "model s \<noteq> None \<longrightarrow> tokenizer s \<noteq> None \<Longrightarrow>
     model (snd (try_load out s)) \<noteq> None \<longrightarrow> tokenizer (snd (try_load out s)) \<noteq> None"
  by (cases out) simp_all

lemma load_attempts_paired:
  "model s \<noteq> None \<longrightarrow> tokenizer s \<noteq> None \<Longrightarrow>
     model (snd (load_attempts f n atts d s)) \<noteq> None \<longrightarrow>
     tokenizer (snd (load_attempts f n atts d s)) \<noteq> None"
proof (induction atts arbitrary: d s)
  case Nil
  then show ?case by simp
next
  case (Cons a rest)
  define r where "r = try_load (f a) (emit (FetchAttempt a) s)"
  have r: "model (snd r) \<noteq> None \<longrightarrow> tokenizer (snd r) \<noteq> None"
    unfolding r_def using Cons.prems by (intro try_load_paired) (simp add: emit_fields)
  have step: "model (snd (load_attempts f n rest (d * 2) (emit (Sleep d) (snd r)))) \<noteq> None \<longrightarrow>
      tokenizer (snd (load_attempts f n rest (d * 2) (emit (Sleep d) (snd r)))) \<noteq> None"
    using r by (intro Cons.IH) (simp add: emit_fields)
  show ?case
    using r step
    by (simp add: load_attempts_step Let_def r_def [symmetric] split: sum.split
        del: load_attempts.simps)
qed

lemma load_model_paired:
  "model s \<noteq> None \<longrightarrow> tokenizer s \<noteq> None \<Longrightarrow>
     model (snd (load_model f s)) \<noteq> None \<longrightarrow> tokenizer (snd (load_model f s)) \<noteq> None"
  using load_attempts_paired [of s f 3 "[0..<3]" 5] by (simp add: load_model_def)

text \<open>
  C7, as amended. \<open>health\<close> is a total function of the state: in every state it answers
  with status "healthy", with \<open>model_loaded\<close> true exactly when the global \<open>model\<close> is
  set, with the device chosen at import and with the availability it is given. Before
  \<open>load_model\<close> has run \<open>model_loaded\<close> is false; after a \<open>load_model\<close> that returned
  normally it is true; after a \<open>load_model\<close> in which no attempt came back from the
  model fetch it is false; and after any \<open>load_model\<close> it agrees with the test of both
  handles that \<open>paraphrase\<close> makes.
\<close>

theorem health_reports_state:
  "status (health c s) = ustr ''healthy'' \<and>
   model_loaded (health c s) = (model s \<noteq> None) \<and>
   health_device (health c s) = device s \<and>
   cuda_available (health c s) = c \<and>
   \<not> model_loaded (health c (module_init a)) \<and>
   (fst (load_model f (module_init a)) = Inr () \<longrightarrow>
      model_loaded (health c (snd (load_model f (module_init a))))) \<and>
   (fetched_model (f 0) = None \<and> fetched_model (f 1) = None \<and> fetched_model (f 2) = None \<longrightarrow>
      \<not> model_loaded (health c (snd (load_model f (module_init a))))) \<and>
   model_loaded (health c (snd (load_model f (module_init a)))) =
     (model (snd (load_model f (module_init a))) \<noteq> None \<and>
      tokenizer (snd (load_model f (module_init a))) \<noteq> None) \<and>
   health_device (health c (snd (load_model f (module_init a)))) =
     (if a then ustr ''cuda'' else ustr ''cpu'')"
proof -
  have init: "model (module_init a) = None" "tokenizer (module_init a) = None"
    "device (module_init a) = (if a then ustr ''cuda'' else ustr ''cpu'')"
    by (simp_all add: module_init_def)
  have fields: "status (health c x) = ustr ''healthy''"
    "model_loaded (health c x) = (model x \<noteq> None)"
    "health_device (health c x) = device x" "cuda_available (health c x) = c" for x
    by (simp_all add: health_def)
  have ok: "fst (load_model f (module_init a)) = Inr () \<longrightarrow>
      model (snd (load_model f (module_init a))) \<noteq> None"
    using load_model_loaded [of "module_init a" f] init by blast
  have none: "fetched_model (f 0) = None \<and> fetched_model (f 1) = None \<and>
      fetched_model (f 2) = None \<longrightarrow> model (snd (load_model f (module_init a))) = None"
    using no_model_fetched [of "module_init a" f] init by blast
  have both: "model (snd (load_model f (module_init a))) \<noteq> None \<longrightarrow>
      tokenizer (snd (load_model f (module_init a))) \<noteq> None"
    by (rule load_model_paired) (simp add: init)
  show ?thesis
    unfolding fields load_model_device using ok none both init by auto
qed

text \<open>
  Instances without CUDA: a load that succeeds at the first attempt, and a load whose
  three model fetches raised.
\<close>

theorem health_reports_state_witness:
  "fst (load_model (\<lambda>i. Loaded (T5Tokenizer 1) (T5ForConditionalGeneration 1))
          (module_init False)) = Inr () \<and>
   model_loaded (health False (snd (load_model
          (\<lambda>i. Loaded (T5Tokenizer 1) (T5ForConditionalGeneration 1)) (module_init False)))) \<and>
   \<not> model_loaded (health False (module_init False)) \<and>
   \<not> model_loaded (health False (snd (load_model
          (\<lambda>i. ModelRaises (T5Tokenizer 0) (PyException (ustr ''offline''))) (module_init False)))) \<and>
   health_device (health False (snd (load_model
          (\<lambda>i. Loaded (T5Tokenizer 1) (T5ForConditionalGeneration 1)) (module_init False)))) =
     ustr ''cpu''"
proof -
  have "fst (load_model (\<lambda>i. Loaded (T5Tokenizer 1) (T5ForConditionalGeneration 1))
          (module_init False)) = Inr ()"
    by (simp add: load_simps module_init_def del: load_attempts.simps)
  then show ?thesis
    using health_reports_state [where c = False and a = False
        and f = "\<lambda>i. Loaded (T5Tokenizer 1) (T5ForConditionalGeneration 1)"
        and s = "module_init False"]
      health_reports_state [where c = False and a = False
        and f = "\<lambda>i. ModelRaises (T5Tokenizer 0) (PyException (ustr ''offline''))"
        and s = "module_init False"]
    by (simp add: module_init_def)
qed

text \<open>
  C7 as stated fails: when \<open>model.to(device)\<close> raises in each attempt the load has
  failed, and \<open>health\<close> reports \<open>model_loaded\<close> true.
\<close>

theorem health_after_device_failure_counterexample:
  "fst (load_model (\<lambda>i. ToDeviceRaises (T5Tokenizer 0) (T5ForConditionalGeneration 0)
                          (PyException (ustr ''out of memory''))) (module_init True)) =
     Inl (PyException (ustr ''out of memory'')) \<and>
   model_loaded (health True
     (snd (load_model (\<lambda>i. ToDeviceRaises (T5Tokenizer 0) (T5ForConditionalGeneration 0)
                          (PyException (ustr ''out of memory''))) (module_init True))))"
  by (simp add: device_failure_state health_def)

section \<open>Properties of ParaphraseRequest\<close>

text \<open>
  C8, as amended. A request keeps the text, the two counts and the temperature it is
  constructed with, and takes 1, 5 and 1.0 for those left out. Nothing is checked: a
  field is positive exactly when it was left out or given a positive value.
\<close>

theorem ParaphraseRequest_fields:
  "text (new_ParaphraseRequest t nrs nb temp) = t \<and>
   num_return_sequences (new_ParaphraseRequest t nrs nb temp) =
     (case nrs of None \<Rightarrow> 1 | Some v \<Rightarrow> v) \<and>
   num_beams (new_ParaphraseRequest t nrs nb temp) = (case nb of None \<Rightarrow> 5 | Some v \<Rightarrow> v) \<and>
   temperature (new_ParaphraseRequest t nrs nb temp) =
     (case temp of None \<Rightarrow> 1 | Some v \<Rightarrow> v) \<and>
   (0 < num_return_sequences (new_ParaphraseRequest t nrs nb temp)) =
     (nrs = None \<or> (\<exists>v. nrs = Some v \<and> 0 < v)) \<and>
   (0 < num_beams (new_ParaphraseRequest t nrs nb temp)) =
     (nb = None \<or> (\<exists>v. nb = Some v \<and> 0 < v)) \<and>
   (0 < temperature (new_ParaphraseRequest t nrs nb temp)) =
     (temp = None \<or> (\<exists>v. temp = Some v \<and> 0 < v))"
  by (cases nrs; cases nb; cases temp) (simp_all add: new_ParaphraseRequest_def)

text \<open>
  C8 as stated fails: a request with \<open>num_return_sequences = 0\<close>, \<open>num_beams = -1\<close>
  and \<open>temperature = -1.0\<close> is constructed and holds these values.
\<close>

theorem ParaphraseRequest_nonpositive_counterexample:
  "num_return_sequences (new_ParaphraseRequest (ustr ''Hello'') (Some 0) (Some (- 1)) (Some (- 1))) = 0 \<and>
   num_beams (new_ParaphraseRequest (ustr ''Hello'') (Some 0) (Some (- 1)) (Some (- 1))) = - 1 \<and>
   temperature (new_ParaphraseRequest (ustr ''Hello'') (Some 0) (Some (- 1)) (Some (- 1))) = - 1 \<and>
   \<not> 0 < num_return_sequences
         (new_ParaphraseRequest (ustr ''Hello'') (Some 0) (Some (- 1)) (Some (- 1)))"
  by (simp add: new_ParaphraseRequest_def)

end
